theory Spec2Isabelle
  imports Main
begin

section \<open>Python values, exceptions and the outside world\<close>

text \<open>
  The repository is three Python files: \<^verbatim>\<open>api/algorithm.py\<close> (\<^verbatim>\<open>Person\<close>,
  \<^verbatim>\<open>RoutePlanner\<close>, \<^verbatim>\<open>VRPSolver\<close>, \<^verbatim>\<open>GoogleDistanceMatrixClient\<close>),
  \<^verbatim>\<open>api/index.py\<close> (the FastAPI endpoints) and \<^verbatim>\<open>api/supabase_client.py\<close>.
  Values that the code handles dynamically (the entries of \<^verbatim>\<open>VRPSolver.data\<close>, the
  positional arguments of a constructor call) are values of \<open>pyval\<close>.
\<close>

datatype pyval = PyNone | PyInt int | PyStr string | PyList "pyval list"

text \<open>
  Exceptions are values. \<open>LibraryError\<close> stands for any exception raised inside the
  third-party packages (googlemaps, OR-tools); it carries the text of \<^verbatim>\<open>str(e)\<close>.
\<close>

datatype pyerror =
    ValueError string
  | TypeError string
  | KeyError string
  | IndexError string
  | AttributeError string
  | Exception string
  | LibraryError string

text \<open>
  What a run leaves behind outside its own objects: the texts given to \<^verbatim>\<open>print\<close>, one
  entry per call, and the requests sent to the Distance Matrix service (origins,
  destinations), in order.
\<close>

record world =
  stdout :: "string list"
  api_calls :: "(string list \<times> string list) list"

definition print :: "string \<Rightarrow> world \<Rightarrow> world" where
  "print s w = w\<lparr>stdout := stdout w @ [s]\<rparr>"

subsection \<open>Built-ins: \<^verbatim>\<open>str\<close>, \<^verbatim>\<open>repr\<close>, \<^verbatim>\<open>len\<close>, subscripting a dict\<close>

definition digit_char :: "nat \<Rightarrow> char" where
  "digit_char d = char_of (48 + d)"

function str_nat :: "nat \<Rightarrow> string" where
  "str_nat n = (if n < 10 then [digit_char n] else str_nat (n div 10) @ [digit_char (n mod 10)])"
  by pat_completeness auto
termination
  by (relation "measure id") auto

definition str_int :: "int \<Rightarrow> string" where
  "str_int i = (if i < 0 then CHR ''-'' # str_nat (nat (- i)) else str_nat (nat i))"

definition hex_char :: "nat \<Rightarrow> char" where
  "hex_char d = (if d < 10 then char_of (48 + d) else char_of (87 + d))"

text \<open>
  \<^verbatim>\<open>repr\<close> of a \<^verbatim>\<open>str\<close>, for strings of code points below 256: double quotes are
  chosen when the text holds a single quote and no double quote, the quote and the
  backslash are escaped, tab, newline and carriage return get their letter, and any
  other code point that is not printable is written \<^verbatim>\<open>\xhh\<close>.
\<close>

definition printable :: "char \<Rightarrow> bool" where
  "printable c = (let n = (of_char c :: nat) in (32 \<le> n \<and> n < 127) \<or> (161 \<le> n \<and> n \<noteq> 173))"

definition repr_char :: "char \<Rightarrow> char \<Rightarrow> string" where
  "repr_char q c =
     (if c = q \<or> c = CHR 0x5C then [CHR 0x5C, c]
      else if c = CHR 0x09 then [CHR 0x5C, CHR ''t'']
      else if c = CHR 0x0A then [CHR 0x5C, CHR ''n'']
      else if c = CHR 0x0D then [CHR 0x5C, CHR ''r'']
      else if printable c then [c]
      else [CHR 0x5C, CHR ''x'', hex_char ((of_char c :: nat) div 16),
            hex_char ((of_char c :: nat) mod 16)])"

definition py_repr :: "string \<Rightarrow> string" where
  "py_repr s =
     (let q = (if CHR 0x27 \<in> set s \<and> CHR 0x22 \<notin> set s then CHR 0x22 else CHR 0x27)
      in q # concat (map (repr_char q) s) @ [q])"

fun join :: "string \<Rightarrow> string list \<Rightarrow> string" where
  "join sep [] = []"
| "join sep [x] = x"
| "join sep (x # y # ys) = x @ sep @ join sep (y # ys)"

text \<open>\<^verbatim>\<open>str\<close> of a list of strings, as an f-string renders \<^verbatim>\<open>self.destination\<close>.\<close>

definition py_str_list :: "string list \<Rightarrow> string" where
  "py_str_list xs = ''['' @ join '', '' (map py_repr xs) @ '']''"

text \<open>\<^verbatim>\<open>str(e)\<close>: the message; for a \<^verbatim>\<open>KeyError\<close>, the \<^verbatim>\<open>repr\<close> of the key.\<close>

fun str_of_error :: "pyerror \<Rightarrow> string" where
  "str_of_error (ValueError m) = m"
| "str_of_error (TypeError m) = m"
| "str_of_error (KeyError k) = py_repr k"
| "str_of_error (IndexError m) = m"
| "str_of_error (AttributeError m) = m"
| "str_of_error (Exception m) = m"
| "str_of_error (LibraryError m) = m"

fun type_name :: "pyval \<Rightarrow> string" where
  "type_name PyNone = ''NoneType''"
| "type_name (PyInt i) = ''int''"
| "type_name (PyStr s) = ''str''"
| "type_name (PyList xs) = ''list''"

fun py_len :: "pyval \<Rightarrow> pyerror + nat" where
  "py_len (PyList xs) = Inr (length xs)"
| "py_len (PyStr s) = Inr (length s)"
| "py_len v = Inl (TypeError (''object of type '' @ py_repr (type_name v) @ '' has no len()''))"

text \<open>\<^verbatim>\<open>d[k]\<close> on a dict with string keys.\<close>

definition getitem :: "(string \<rightharpoonup> pyval) \<Rightarrow> string \<Rightarrow> pyerror + pyval" where
  "getitem d k = (case d k of None \<Rightarrow> Inl (KeyError k) | Some v \<Rightarrow> Inr v)"

section \<open>\<^verbatim>\<open>VRPSolver\<close> (algorithm.py, lines 97 to 178)\<close>

text \<open>
  OR-tools is not part of the repository. What \<^verbatim>\<open>solve\<close> and \<^verbatim>\<open>print_solution\<close>
  obtain from it is a parameter: whether \<^verbatim>\<open>RoutingIndexManager(n, num_vehicles, depot)\<close>
  raises, and what \<^verbatim>\<open>SolveWithParameters\<close> yields for the model that \<^verbatim>\<open>solve\<close> sets
  up (node count, vehicle count, depot, the matrix read by the transit callback, the
  capacities of the dimension): an exception, \<^verbatim>\<open>None\<close>, or an assignment. Of an
  assignment \<^verbatim>\<open>print_solution\<close> reads, per vehicle, the walk from
  \<^verbatim>\<open>routing.Start(vehicle_id)\<close> along \<^verbatim>\<open>NextVar\<close> until \<^verbatim>\<open>IsEnd\<close>: the nodes
  before the end index, the arc costs along the way, and the node of the end index.
\<close>

record route =
  visited :: "nat list"
  arc_costs :: "int list"
  end_node :: nat

record ortools =
  RoutingIndexManager :: "nat \<Rightarrow> pyval \<Rightarrow> pyval \<Rightarrow> string option"
  SolveWithParameters ::
    "nat \<Rightarrow> pyval \<Rightarrow> pyval \<Rightarrow> pyval \<Rightarrow> pyval \<Rightarrow> string + (nat \<Rightarrow> route) option"

record VRPSolver =
  distance_matrix :: pyval
  vehicle_capacities :: pyval
  data :: "string \<rightharpoonup> pyval"
  manager :: "(nat \<times> pyval \<times> pyval) option"
  routing :: "(nat \<times> pyval \<times> pyval) option"
  solution :: "(nat \<Rightarrow> route) option"

text \<open>
  \<^verbatim>\<open>__init__(self, distance_matrix, vehicle_capacities)\<close>: the dict \<^verbatim>\<open>self.data\<close> gets
  the three keys \<^verbatim>\<open>"distance_matrix"\<close>, \<^verbatim>\<open>"vehicle_capacities"\<close> and \<^verbatim>\<open>"depot"\<close>.
\<close>

definition VRPSolver_init :: "pyval \<Rightarrow> pyval \<Rightarrow> VRPSolver" where
  "VRPSolver_init dm caps =
     \<lparr>distance_matrix = dm,
      vehicle_capacities = caps,
      data = [''distance_matrix'' \<mapsto> dm, ''vehicle_capacities'' \<mapsto> caps, ''depot'' \<mapsto> PyInt 0],
      manager = None,
      routing = None,
      solution = None\<rparr>"

text \<open>
  The call \<^verbatim>\<open>VRPSolver(a1, ..., an)\<close>: Python binds the positional arguments to the
  two parameters after \<^verbatim>\<open>self\<close> and raises \<^verbatim>\<open>TypeError\<close> when their number is not
  two (message of CPython 3.10 and later).
\<close>

definition arity_message :: "nat \<Rightarrow> string" where
  "arity_message n =
     (if n = 0 then ''VRPSolver.__init__() missing 2 required positional arguments: ''
                    @ py_repr ''distance_matrix'' @ '' and '' @ py_repr ''vehicle_capacities''
      else if n = 1 then ''VRPSolver.__init__() missing 1 required positional argument: ''
                    @ py_repr ''vehicle_capacities''
      else ''VRPSolver.__init__() takes 3 positional arguments but '' @ str_nat (Suc n)
           @ '' were given'')"

fun VRPSolver_call :: "pyval list \<Rightarrow> pyerror + VRPSolver" where
  "VRPSolver_call [dm, caps] = Inr (VRPSolver_init dm caps)"
| "VRPSolver_call args = Inl (TypeError (arity_message (length args)))"

definition route_text :: "nat \<Rightarrow> route \<Rightarrow> string" where
  "route_text vehicle_id r =
     ''Route for vehicle '' @ str_nat vehicle_id @ [CHR '':'', CHR 0x0A]
     @ concat (map (\<lambda>n. '' '' @ str_nat n @ '' -> '') (visited r))
     @ str_nat (end_node r) @ [CHR 0x0A]
     @ ''Distance of the route: '' @ str_int (sum_list (arc_costs r)) @ [CHR ''m'', CHR 0x0A]"

text \<open>
  \<^verbatim>\<open>print_solution\<close>: \<^verbatim>\<open>range(self.data["num_vehicles"])\<close> comes first; each
  vehicle's text is printed inside the loop, the total after it.
\<close>

definition print_solution :: "VRPSolver \<Rightarrow> world \<Rightarrow> (pyerror + unit) \<times> world" where
  "print_solution self w =
     (case getitem (data self) ''num_vehicles'' of
        Inl e \<Rightarrow> (Inl e, w)
      | Inr (PyInt k) \<Rightarrow>
          (if k \<le> 0 then (Inr (), print ''Total Distance of all routes: 0m'' w)
           else case routing self of
             None \<Rightarrow> (Inl (AttributeError
                        (py_repr ''NoneType'' @ '' object has no attribute '' @ py_repr ''Start'')), w)
           | Some m \<Rightarrow>
               (case solution self of
                  None \<Rightarrow> (Inl (AttributeError
                        (py_repr ''NoneType'' @ '' object has no attribute '' @ py_repr ''Value'')), w)
                | Some a \<Rightarrow>
                    (let ids = [0 ..< nat k];
                         total = sum_list (map (\<lambda>v. sum_list (arc_costs (a v))) ids)
                     in (Inr (),
                         print (''Total Distance of all routes: '' @ str_int total @ ''m'')
                           (foldl (\<lambda>w' v. print (route_text v (a v)) w') w ids)))))
      | Inr v \<Rightarrow> (Inl (TypeError (py_repr (type_name v)
                        @ '' object cannot be interpreted as an integer'')), w))"

text \<open>
  \<^verbatim>\<open>solve\<close>. The arguments of \<^verbatim>\<open>RoutingIndexManager\<close> are evaluated left to right:
  \<^verbatim>\<open>len(self.data["distance_matrix"])\<close>, \<^verbatim>\<open>self.data["num_vehicles"]\<close>,
  \<^verbatim>\<open>self.data["depot"]\<close>; only then is OR-tools entered. The fields \<^verbatim>\<open>manager\<close>,
  \<^verbatim>\<open>routing\<close> and \<^verbatim>\<open>solution\<close> are assigned as the calls return, so an exception
  leaves the earlier assignments in place.
\<close>

definition solve :: "ortools \<Rightarrow> VRPSolver \<Rightarrow> world \<Rightarrow> (pyerror + unit) \<times> VRPSolver \<times> world" where
  "solve rt self w =
     (case getitem (data self) ''distance_matrix'' of
        Inl e \<Rightarrow> (Inl e, self, w)
      | Inr dm \<Rightarrow>
     (case py_len dm of
        Inl e \<Rightarrow> (Inl e, self, w)
      | Inr n \<Rightarrow>
     (case getitem (data self) ''num_vehicles'' of
        Inl e \<Rightarrow> (Inl e, self, w)
      | Inr nv \<Rightarrow>
     (case getitem (data self) ''depot'' of
        Inl e \<Rightarrow> (Inl e, self, w)
      | Inr depot \<Rightarrow>
     (case RoutingIndexManager rt n nv depot of
        Some m \<Rightarrow> (Inl (LibraryError m), self, w)
      | None \<Rightarrow>
     (let self1 = self\<lparr>manager := Some (n, nv, depot), routing := Some (n, nv, depot)\<rparr> in
      case getitem (data self1) ''vehicle_capacities'' of
        Inl e \<Rightarrow> (Inl e, self1, w)
      | Inr caps \<Rightarrow>
     (case SolveWithParameters rt n nv depot dm caps of
        Inl m \<Rightarrow> (Inl (LibraryError m), self1, w)
      | Inr sol \<Rightarrow>
     (let self2 = self1\<lparr>solution := sol\<rparr> in
      case sol of
        None \<Rightarrow> (Inr (), self2, w)
      | Some a \<Rightarrow> (case print_solution self2 w of (r, w') \<Rightarrow> (r, self2, w'))))))))))"

section \<open>\<^verbatim>\<open>GoogleDistanceMatrixClient\<close> (algorithm.py, lines 181 to 221)\<close>

text \<open>
  The googlemaps package is not part of the repository either. It is a parameter: whether
  \<^verbatim>\<open>googlemaps.Client(key=api_key)\<close> raises (the text of the exception, if so), and
  what \<^verbatim>\<open>distance_matrix(client, origins, destinations, mode="driving")\<close> does for
  given origins and destinations: it raises, or it returns the response. Of a response
  the code reads \<^verbatim>\<open>["status"]\<close> and, per row, \<^verbatim>\<open>["elements"][0]["distance"]["text"]\<close>
  and \<^verbatim>\<open>["elements"][0]["duration"]["text"]\<close>; an element of a pair that could not be
  routed has neither key.
\<close>

record gm_element =
  distance_text :: "string option"
  duration_text :: "string option"

record gm_response =
  status :: string
  rows :: "gm_element list list"

record googlemaps =
  Client :: "string option \<Rightarrow> string option"
  distance_matrix_api :: "string list \<Rightarrow> string list \<Rightarrow> string + gm_response"

record GoogleDistanceMatrixClient =
  origins :: "string list"
  destination :: "string list"

definition GoogleDistanceMatrixClient_init ::
  "googlemaps \<Rightarrow> string option \<Rightarrow> pyerror + GoogleDistanceMatrixClient" where
  "GoogleDistanceMatrixClient_init gm api_key =
     (case Client gm api_key of
        Some m \<Rightarrow> Inl (LibraryError m)
      | None \<Rightarrow> Inr \<lparr>origins = [], destination = []\<rparr>)"

definition add_origin :: "GoogleDistanceMatrixClient \<Rightarrow> string \<Rightarrow> GoogleDistanceMatrixClient" where
  "add_origin self origin = self\<lparr>origins := origins self @ [origin]\<rparr>"

definition set_destination :: "GoogleDistanceMatrixClient \<Rightarrow> string \<Rightarrow> GoogleDistanceMatrixClient" where
  "set_destination self d = self\<lparr>destination := destination self @ [d]\<rparr>"

definition result_line :: "string \<Rightarrow> string list \<Rightarrow> string \<Rightarrow> string \<Rightarrow> string" where
  "result_line origin dest distance duration =
     ''From '' @ origin @ '' to '' @ py_str_list dest @ '': '' @ distance @ '', '' @ duration"

text \<open>
  The loop \<^verbatim>\<open>for origin_index, origin in enumerate(self.origins)\<close>: the row of the
  origin's index, its first element, the two texts; a missing row or element raises
  \<^verbatim>\<open>IndexError\<close>, a missing key \<^verbatim>\<open>KeyError\<close>.
\<close>

fun results_loop ::
  "string list \<Rightarrow> gm_element list list \<Rightarrow> nat \<Rightarrow> string list \<Rightarrow> pyerror + string list" where
  "results_loop dest rws origin_index [] = Inr []"
| "results_loop dest rws origin_index (origin # rest) =
     (if origin_index < length rws then
        (case rws ! origin_index of
           [] \<Rightarrow> Inl (IndexError ''list index out of range'')
         | el # els \<Rightarrow>
             (case distance_text el of
                None \<Rightarrow> Inl (KeyError ''distance'')
              | Some distance \<Rightarrow>
                  (case duration_text el of
                     None \<Rightarrow> Inl (KeyError ''duration'')
                   | Some duration \<Rightarrow>
                       (case results_loop dest rws (Suc origin_index) rest of
                          Inl e \<Rightarrow> Inl e
                        | Inr results \<Rightarrow>
                            Inr (result_line origin dest distance duration # results)))))
      else Inl (IndexError ''list index out of range''))"

definition fetch_distance_matrix ::
  "googlemaps \<Rightarrow> GoogleDistanceMatrixClient \<Rightarrow> world \<Rightarrow> (pyerror + string list) \<times> world" where
  "fetch_distance_matrix gm self w =
     (if origins self = [] \<or> destination self = [] then
        (Inl (ValueError ''Origins and destination must be set before fetching the distance matrix.''), w)
      else
        (let w1 = w\<lparr>api_calls := api_calls w @ [(origins self, destination self)]\<rparr> in
         case distance_matrix_api gm (origins self) (destination self) of
           Inl m \<Rightarrow> (Inl (LibraryError m), w1)
         | Inr distance_matrix_result \<Rightarrow>
             (if status distance_matrix_result = ''OK'' then
                (results_loop (destination self) (rows distance_matrix_result) 0 (origins self), w1)
              else
                (Inl (Exception (''Error fetching distance matrix: ''
                                   @ status distance_matrix_result)), w1))))"

section \<open>\<^verbatim>\<open>Person\<close> and \<^verbatim>\<open>RoutePlanner\<close> (algorithm.py, lines 8 to 80)\<close>

record Person =
  name :: string
  address :: string
  is_driving :: bool
  is_destination :: bool
  capacity :: int

definition Person_init :: "string \<Rightarrow> string \<Rightarrow> int \<Rightarrow> bool \<Rightarrow> bool \<Rightarrow> pyerror + Person" where
  "Person_init nm addr cap driving dest =
     (if cap \<noteq> 0 \<and> \<not> driving then Inl (ValueError ''Non-driving persons cannot have a capacity.'')
      else Inr \<lparr>name = nm, address = addr, is_driving = driving, is_destination = dest,
                capacity = cap\<rparr>)"

record RoutePlanner =
  persons :: "Person list"
  api_key :: "string option"
  destinations :: "string list"
  drivers :: "Person list"
  passengers :: "Person list"

definition RoutePlanner_init :: "Person list \<Rightarrow> string option \<Rightarrow> RoutePlanner" where
  "RoutePlanner_init ps key =
     \<lparr>persons = ps,
      api_key = key,
      destinations = map address (filter is_destination ps),
      drivers = filter (\<lambda>p. is_driving p \<and> \<not> is_destination p) ps,
      passengers = filter (\<lambda>p. \<not> is_driving p \<and> \<not> is_destination p) ps\<rparr>"

text \<open>
  The body of the \<^verbatim>\<open>try\<close> block of \<^verbatim>\<open>plan_routes\<close> (lines 65 to 78): the fetch, the
  list of capacities, the call \<^verbatim>\<open>VRPSolver(dist_matrix, len(self.drivers), vehicle_capacities)\<close>
  with its three positional arguments, and \<^verbatim>\<open>vrp_solver.solve()\<close>.
\<close>

definition plan_routes_try ::
  "googlemaps \<Rightarrow> ortools \<Rightarrow> RoutePlanner \<Rightarrow> GoogleDistanceMatrixClient \<Rightarrow> world
     \<Rightarrow> (pyerror + unit) \<times> world" where
  "plan_routes_try gm rt self google_distance_client w =
     (case fetch_distance_matrix gm google_distance_client w of
        (Inl e, w1) \<Rightarrow> (Inl e, w1)
      | (Inr dist_matrix, w1) \<Rightarrow>
          (let vehicle_capacities = map (\<lambda>driver. PyInt (capacity driver)) (drivers self) in
           case VRPSolver_call [PyList (map PyStr dist_matrix),
                                PyInt (int (length (drivers self))),
                                PyList vehicle_capacities] of
             Inl e \<Rightarrow> (Inl e, w1)
           | Inr vrp_solver \<Rightarrow>
               (case solve rt vrp_solver w1 of (r, vrp_solver', w2) \<Rightarrow> (r, w2))))"

text \<open>
  \<^verbatim>\<open>plan_routes\<close>: the two checks raise to the caller, and so does a failing
  construction of the client (line 55, before the \<^verbatim>\<open>try\<close>); whatever the
  \<^verbatim>\<open>try\<close> block raises is caught by \<^verbatim>\<open>except Exception\<close>, printed, and the method
  returns \<^verbatim>\<open>None\<close>.
\<close>

definition plan_routes ::
  "googlemaps \<Rightarrow> ortools \<Rightarrow> RoutePlanner \<Rightarrow> world \<Rightarrow> (pyerror + unit) \<times> world" where
  "plan_routes gm rt self w =
     (if destinations self = [] then
        (Inl (ValueError ''At least one destination is required.''), w)
      else if drivers self = [] then
        (Inl (ValueError ''At least one driver is required.''), w)
      else
        (case GoogleDistanceMatrixClient_init gm (api_key self) of
           Inl e \<Rightarrow> (Inl e, w)
         | Inr c0 \<Rightarrow>
             (let c1 = foldl add_origin c0 (map address (drivers self));
                  c2 = foldl set_destination c1 (destinations self)
              in case plan_routes_try gm rt self c2 w of
                   (Inl e, w') \<Rightarrow> (Inr (), print (''An error occurred: '' @ str_of_error e) w')
                 | (Inr u, w') \<Rightarrow> (Inr (), w'))))"

text \<open>
  The state of the client when \<^verbatim>\<open>plan_routes\<close> enters its \<^verbatim>\<open>try\<close> block, the two
  loops of lines 58 to 61 having run on a new client: the drivers' addresses as origins,
  the destinations as destination list.
\<close>

definition planner_request :: "RoutePlanner \<Rightarrow> GoogleDistanceMatrixClient" where
  "planner_request self = \<lparr>origins = map address (drivers self), destination = destinations self\<rparr>"

section \<open>The endpoint \<^verbatim>\<open>POST /api/distance/\<close> (index.py, lines 42 to 51)\<close>

text \<open>
  The handler works on the one \<^verbatim>\<open>google_client\<close> that the module creates when it is
  loaded (line 7); the client is therefore part of the state that a request finds and
  leaves. Its answer is the list of results or the dict \<^verbatim>\<open>{"error": str(e)}\<close>.
\<close>

datatype response = Results "string list" | ErrorBody string

definition api_distance ::
  "googlemaps \<Rightarrow> string list \<Rightarrow> string \<Rightarrow> GoogleDistanceMatrixClient \<Rightarrow> world
     \<Rightarrow> response \<times> GoogleDistanceMatrixClient \<times> world" where
  "api_distance gm origs dest google_client w =
     (let c1 = foldl add_origin google_client origs;
          c2 = set_destination c1 dest
      in case fetch_distance_matrix gm c2 w of
           (Inr results, w') \<Rightarrow> (Results results, c2, w')
         | (Inl e, w') \<Rightarrow> (ErrorBody (str_of_error e), c2, w'))"

section \<open>Sample inputs\<close>

text \<open>
  Concrete inputs for the closed statements below: a world in which nothing has happened
  yet, a distance service that answers every request with one routed element per origin,
  one whose requests fail, an OR-tools that would accept any model and find an
  assignment, and four persons: a driver with one seat, two passengers, the destination.
  Both services construct a client as \<^verbatim>\<open>googlemaps.Client\<close> does: a missing or empty
  key is refused, and so is a key that does not start with \<^verbatim>\<open>AIza\<close>.
\<close>

definition key_check :: "string option \<Rightarrow> string option" where
  "key_check key =
     (case key of
        None \<Rightarrow> Some ''Must provide API key or enterprise credentials when creating client.''
      | Some k \<Rightarrow>
          (if k = [] then
             Some ''Must provide API key or enterprise credentials when creating client.''
           else if take 4 k = ''AIza'' then None
           else Some ''Invalid API key provided.''))"

definition empty_world :: world where
  "empty_world = \<lparr>stdout = [], api_calls = []\<rparr>"

definition answering_service :: googlemaps where
  "answering_service =
     \<lparr>Client = key_check,
      distance_matrix_api = (\<lambda>origs dests. Inr \<lparr>status = ''OK'',
         rows = map (\<lambda>x. [\<lparr>distance_text = Some ''1 km'', duration_text = Some ''2 mins''\<rparr>])
                  origs\<rparr>)\<rparr>"

definition failing_service :: googlemaps where
  "failing_service =
     \<lparr>Client = key_check, distance_matrix_api = (\<lambda>origs dests. Inl ''timed out'')\<rparr>"

definition solving_ortools :: ortools where
  "solving_ortools =
     \<lparr>RoutingIndexManager = (\<lambda>n v d. None),
      SolveWithParameters = (\<lambda>n v d m c.
         Inr (Some (\<lambda>vehicle. \<lparr>visited = [0], arc_costs = [0], end_node = 0\<rparr>)))\<rparr>"

definition fresh_client :: GoogleDistanceMatrixClient where
  "fresh_client = \<lparr>origins = [], destination = []\<rparr>"

definition dan :: Person where
  "dan = \<lparr>name = ''Dan'', address = ''A'', is_driving = True, is_destination = False,
           capacity = 1\<rparr>"

definition pat :: Person where
  "pat = \<lparr>name = ''Pat'', address = ''P'', is_driving = False, is_destination = False,
           capacity = 0\<rparr>"

definition quinn :: Person where
  "quinn = \<lparr>name = ''Quinn'', address = ''Q'', is_driving = False, is_destination = False,
             capacity = 0\<rparr>"

definition hall :: Person where
  "hall = \<lparr>name = ''Hall'', address = ''D'', is_driving = False, is_destination = True,
            capacity = 0\<rparr>"

definition two_origins :: GoogleDistanceMatrixClient where
  "two_origins = \<lparr>origins = [''A'', ''B''], destination = [''D'']\<rparr>"

definition answer_two :: gm_response where
  "answer_two =
     \<lparr>status = ''OK'',
      rows = [[\<lparr>distance_text = Some ''1 km'', duration_text = Some ''2 mins''\<rparr>],
              [\<lparr>distance_text = Some ''1 km'', duration_text = Some ''2 mins''\<rparr>]]\<rparr>"

section \<open>The specification's distance matrix\<close>

text \<open>
  The specification's words for what the distance provider returns, to be compared with
  what \<^verbatim>\<open>fetch_distance_matrix\<close> returns: a square table of non-negative numbers,
  that is a list of \<open>n\<close> rows, each a list of \<open>n\<close> numbers that are not negative.
\<close>

fun spec_nonneg_number :: "pyval \<Rightarrow> bool" where
  "spec_nonneg_number (PyInt i) = (0 \<le> i)"
| "spec_nonneg_number v = False"

fun spec_matrix_row :: "nat \<Rightarrow> pyval \<Rightarrow> bool" where
  "spec_matrix_row n (PyList xs) = (length xs = n \<and> list_all spec_nonneg_number xs)"
| "spec_matrix_row n v = False"

fun spec_square_nonneg_matrix :: "pyval \<Rightarrow> bool" where
  "spec_square_nonneg_matrix (PyList rws) = list_all (spec_matrix_row (length rws)) rws"
| "spec_square_nonneg_matrix v = False"

text \<open>
  A row of the response whose first element was routed (it has both texts), and the line
  that \<^verbatim>\<open>fetch_distance_matrix\<close> makes of an origin and such a row.
\<close>

definition routed :: "gm_element list \<Rightarrow> bool" where
  "routed row =
     (case row of
        [] \<Rightarrow> False
      | el # els \<Rightarrow> distance_text el \<noteq> None \<and> duration_text el \<noteq> None)"

definition row_line :: "string list \<Rightarrow> string \<Rightarrow> gm_element list \<Rightarrow> string" where
  "row_line dest origin row =
     result_line origin dest (the (distance_text (hd row))) (the (duration_text (hd row)))"

section \<open>The sample persons are persons\<close>

text \<open>Each of the four is what \<^verbatim>\<open>Person(...)\<close> returns for its arguments.\<close>

lemma sample_persons_constructed:
  "Person_init ''Dan'' ''A'' 1 True False = Inr dan"
  "Person_init ''Pat'' ''P'' 0 False False = Inr pat"
  "Person_init ''Quinn'' ''Q'' 0 False False = Inr quinn"
  "Person_init ''Hall'' ''D'' 0 False True = Inr hall"
  by (simp_all add: Person_init_def dan_def pat_def quinn_def hall_def)

text \<open>A passenger cannot be given seats.\<close>

lemma passenger_with_capacity_refused:
  "Person_init ''Pat'' ''P'' 2 False False
     = Inl (ValueError ''Non-driving persons cannot have a capacity.'')"
  by (simp add: Person_init_def)

section \<open>Properties of \<^verbatim>\<open>VRPSolver\<close>\<close>

lemma data_init_num_vehicles: "data (VRPSolver_init dm caps) ''num_vehicles'' = None"
  by (simp add: VRPSolver_init_def)

lemma data_init_distance_matrix: "data (VRPSolver_init dm caps) ''distance_matrix'' = Some dm"
  by (simp add: VRPSolver_init_def)

text \<open>
  C9, as amended. A solver built by the constructor never gets past the arguments of
  \<^verbatim>\<open>RoutingIndexManager\<close>: when its distance matrix has a length (a list, or a
  string), \<^verbatim>\<open>solve\<close> raises \<^verbatim>\<open>KeyError('num_vehicles')\<close>; when it has none,
  \<^verbatim>\<open>solve\<close> raises the \<^verbatim>\<open>TypeError\<close> of \<^verbatim>\<open>len\<close>, which is evaluated first.
  Whatever OR-tools would do, it is never entered, the solver object is left as the
  constructor made it (no manager, no routing model, no solution) and nothing is
  printed.
\<close>

theorem solve_raises_before_ortools:
  "solve rt (VRPSolver_init dm caps) w
     = (Inl (case py_len dm of Inl e \<Rightarrow> e | Inr n \<Rightarrow> KeyError ''num_vehicles''),
        VRPSolver_init dm caps, w)
   \<and> solve rt (VRPSolver_init (PyList m) caps) w
     = (Inl (KeyError ''num_vehicles''), VRPSolver_init (PyList m) caps, w)
   \<and> solve rt (VRPSolver_init (PyStr s) caps) w
     = (Inl (KeyError ''num_vehicles''), VRPSolver_init (PyStr s) caps, w)"
proof (intro conjI)
  show "solve rt (VRPSolver_init dm caps) w
     = (Inl (case py_len dm of Inl e \<Rightarrow> e | Inr n \<Rightarrow> KeyError ''num_vehicles''),
        VRPSolver_init dm caps, w)"
    by (cases dm)
      (simp_all add: solve_def getitem_def data_init_num_vehicles data_init_distance_matrix)
  show "solve rt (VRPSolver_init (PyList m) caps) w
     = (Inl (KeyError ''num_vehicles''), VRPSolver_init (PyList m) caps, w)"
    by (simp add: solve_def getitem_def data_init_num_vehicles data_init_distance_matrix)
  show "solve rt (VRPSolver_init (PyStr s) caps) w
     = (Inl (KeyError ''num_vehicles''), VRPSolver_init (PyStr s) caps, w)"
    by (simp add: solve_def getitem_def data_init_num_vehicles data_init_distance_matrix)
qed

text \<open>
  C9 as stated fails: \<^verbatim>\<open>VRPSolver(None, [1]).solve()\<close> raises \<^verbatim>\<open>TypeError\<close>, not
  \<^verbatim>\<open>KeyError\<close>, because \<^verbatim>\<open>len(self.data["distance_matrix"])\<close> is evaluated before
  \<^verbatim>\<open>self.data["num_vehicles"]\<close>.
\<close>

theorem solve_without_len_raises_TypeError:
  "fst (solve solving_ortools (VRPSolver_init PyNone (PyList [PyInt 1])) empty_world)
     = Inl (TypeError (''object of type '' @ py_repr ''NoneType'' @ '' has no len()''))
   \<and> fst (solve solving_ortools (VRPSolver_init PyNone (PyList [PyInt 1])) empty_world)
     \<noteq> Inl (KeyError ''num_vehicles'')"
  by (simp add: solve_def getitem_def data_init_distance_matrix)

section \<open>Properties of \<^verbatim>\<open>GoogleDistanceMatrixClient\<close>\<close>

lemma origins_foldl_add_origin: "origins (foldl add_origin c xs) = origins c @ xs"
  by (induction xs arbitrary: c) (simp_all add: add_origin_def)

lemma destination_foldl_add_origin: "destination (foldl add_origin c xs) = destination c"
  by (induction xs arbitrary: c) (simp_all add: add_origin_def)

lemma destination_foldl_set_destination:
  "destination (foldl set_destination c xs) = destination c @ xs"
  by (induction xs arbitrary: c) (simp_all add: set_destination_def)

lemma origins_foldl_set_destination: "origins (foldl set_destination c xs) = origins c"
  by (induction xs arbitrary: c) (simp_all add: set_destination_def)

text \<open>The fetch records its request unless the first check already raised.\<close>

lemma fetch_world:
  "snd (fetch_distance_matrix gm c w)
     = (if origins c = [] \<or> destination c = [] then w
        else w\<lparr>api_calls := api_calls w @ [(origins c, destination c)]\<rparr>)"
  by (simp add: fetch_distance_matrix_def Let_def split: sum.splits)

text \<open>
  The loop over the origins, started at index \<open>i\<close>: when the rows from \<open>i\<close> on cover
  the origins and are routed, it returns the lines of the origins paired with them.
\<close>

lemma results_loop_complete:
  "i + length os \<le> length rws \<Longrightarrow> list_all routed (take (length os) (drop i rws)) \<Longrightarrow>
     results_loop dest rws i os = Inr (map2 (row_line dest) os (drop i rws))"
proof (induction os arbitrary: i)
  case Nil
  then show ?case by simp
next
  case (Cons origin rest)
  from Cons.prems(1) have i: "i < length rws" by simp
  then have split: "drop i rws = rws ! i # drop (Suc i) rws"
    by (simp add: Cons_nth_drop_Suc)
  from Cons.prems(2) split have here: "routed (rws ! i)"
    and later: "list_all routed (take (length rest) (drop (Suc i) rws))"
    by simp_all
  from Cons.prems(1) have "Suc i + length rest \<le> length rws" by simp
  then have IH: "results_loop dest rws (Suc i) rest
                   = Inr (map2 (row_line dest) rest (drop (Suc i) rws))"
    using later by (rule Cons.IH)
  from here obtain el els d t where "rws ! i = el # els"
    and "distance_text el = Some d" and "duration_text el = Some t"
    by (auto simp: routed_def split: list.splits)
  then show ?case
    using i IH split by (simp add: row_line_def)
qed

lemma not_matrix_of_strings:
  "results \<noteq> [] \<Longrightarrow> \<not> spec_square_nonneg_matrix (PyList (map PyStr results))"
  by (cases results) simp_all

text \<open>
  C8, as amended. When origins and destination are set and the service answers
  \<^verbatim>\<open>OK\<close> with a routed first element in the row of every origin,
  \<^verbatim>\<open>fetch_distance_matrix\<close> returns one line of text per origin, in the order of the
  origins, each made of the origin, the list of destinations and the two texts of its
  row; the request is recorded; and the value returned is not a square table of
  non-negative numbers.
\<close>

theorem fetch_distance_matrix_returns_lines:
  assumes "origins self \<noteq> []" and "destination self \<noteq> []"
    and "distance_matrix_api gm (origins self) (destination self) = Inr res"
    and "status res = ''OK''"
    and "length (origins self) \<le> length (rows res)"
    and "list_all routed (take (length (origins self)) (rows res))"
  shows "fetch_distance_matrix gm self w
           = (Inr (map2 (row_line (destination self)) (origins self) (rows res)),
              w\<lparr>api_calls := api_calls w @ [(origins self, destination self)]\<rparr>)
         \<and> \<not> spec_square_nonneg_matrix
               (PyList (map PyStr (map2 (row_line (destination self)) (origins self) (rows res))))"
proof -
  have loop: "results_loop (destination self) (rows res) 0 (origins self)
                = Inr (map2 (row_line (destination self)) (origins self) (drop 0 (rows res)))"
    using assms(5,6) by (intro results_loop_complete) simp_all
  have nonempty: "map2 (row_line (destination self)) (origins self) (rows res) \<noteq> []"
    using assms(1,5) by (cases "origins self"; cases "rows res") simp_all
  have returned: "fetch_distance_matrix gm self w
           = (Inr (map2 (row_line (destination self)) (origins self) (rows res)),
              w\<lparr>api_calls := api_calls w @ [(origins self, destination self)]\<rparr>)"
    using assms(1-4) loop by (simp add: fetch_distance_matrix_def)
  show ?thesis
    using returned not_matrix_of_strings [OF nonempty] by (rule conjI)
qed

text \<open>
  C8, an instance: two origins, one destination and the answer of the answering
  service satisfy every hypothesis, and the fetch returns the two lines.
\<close>

theorem fetch_distance_matrix_returns_lines_witness:
  "origins two_origins \<noteq> [] \<and> destination two_origins \<noteq> []
   \<and> distance_matrix_api answering_service (origins two_origins) (destination two_origins)
        = Inr answer_two
   \<and> status answer_two = ''OK''
   \<and> length (origins two_origins) \<le> length (rows answer_two)
   \<and> list_all routed (take (length (origins two_origins)) (rows answer_two))
   \<and> fetch_distance_matrix answering_service two_origins empty_world
        = (Inr [result_line ''A'' [''D''] ''1 km'' ''2 mins'',
                result_line ''B'' [''D''] ''1 km'' ''2 mins''],
           \<lparr>stdout = [], api_calls = [([''A'', ''B''], [''D''])]\<rparr>)"
proof -
  have h1: "origins two_origins \<noteq> []" and h2: "destination two_origins \<noteq> []"
    by (simp_all add: two_origins_def)
  have h3: "distance_matrix_api answering_service (origins two_origins) (destination two_origins)
              = Inr answer_two"
    by (simp add: answering_service_def two_origins_def answer_two_def)
  have h4: "status answer_two = ''OK''"
    by (simp add: answer_two_def)
  have h5: "length (origins two_origins) \<le> length (rows answer_two)"
    by (simp add: two_origins_def answer_two_def)
  have h6: "list_all routed (take (length (origins two_origins)) (rows answer_two))"
    by (simp add: two_origins_def answer_two_def routed_def)
  from fetch_distance_matrix_returns_lines [OF h1 h2 h3 h4 h5 h6, of empty_world]
  have "fetch_distance_matrix answering_service two_origins empty_world
        = (Inr [result_line ''A'' [''D''] ''1 km'' ''2 mins'',
                result_line ''B'' [''D''] ''1 km'' ''2 mins''],
           \<lparr>stdout = [], api_calls = [([''A'', ''B''], [''D''])]\<rparr>)"
    by (simp add: two_origins_def answer_two_def row_line_def empty_world_def)
  with h1 h2 h3 h4 h5 h6 show ?thesis by simp
qed

text \<open>
  C8 as stated fails: for the two origins and the answering service the value returned
  is a list of two strings, which is no square table of non-negative numbers.
\<close>

theorem fetch_distance_matrix_not_a_matrix:
  "fst (fetch_distance_matrix answering_service two_origins empty_world)
     = Inr [result_line ''A'' [''D''] ''1 km'' ''2 mins'',
            result_line ''B'' [''D''] ''1 km'' ''2 mins'']
   \<and> \<not> spec_square_nonneg_matrix
         (PyList [PyStr (result_line ''A'' [''D''] ''1 km'' ''2 mins''),
                  PyStr (result_line ''B'' [''D''] ''1 km'' ''2 mins'')])"
  by (simp add: fetch_distance_matrix_def two_origins_def answering_service_def empty_world_def)

section \<open>Properties of \<^verbatim>\<open>RoutePlanner.plan_routes\<close>\<close>



lemma planner_client:
  "GoogleDistanceMatrixClient_init gm key = Inr c0 \<Longrightarrow>
     foldl set_destination (foldl add_origin c0 os) ds = \<lparr>origins = os, destination = ds\<rparr>"
  by (auto simp: GoogleDistanceMatrixClient_init_def origins_foldl_set_destination
      origins_foldl_add_origin destination_foldl_set_destination destination_foldl_add_origin
      split: option.splits)




text \<open>Nothing but the fetch adds to the requests sent; printing adds none.\<close>

lemma api_calls_print: "api_calls (print s w) = api_calls w"
  by (simp add: print_def)

lemma api_calls_prints:
  "api_calls (foldl (\<lambda>w' v. print (f v) w') w vs) = api_calls w"
  by (induction vs arbitrary: w) (simp_all add: api_calls_print)

lemma api_calls_print_solution: "api_calls (snd (print_solution self w)) = api_calls w"
  by (simp add: print_solution_def Let_def api_calls_print api_calls_prints
      split: sum.splits pyval.splits option.splits)

lemma api_calls_solve: "api_calls (snd (snd (solve rt self w))) = api_calls w"
proof -
  have printed: "\<And>s r w'. print_solution s w = (r, w') \<Longrightarrow> api_calls w' = api_calls w"
    using api_calls_print_solution by (metis snd_conv)
  show ?thesis
    by (auto simp: solve_def Let_def split: sum.splits option.splits prod.splits dest: printed)
qed

lemma api_calls_try:
  "api_calls (snd (plan_routes_try gm rt self c w))
     = api_calls (snd (fetch_distance_matrix gm c w))"
proof (cases "fetch_distance_matrix gm c w")
  case (Pair r w1)
  show ?thesis
  proof (cases r)
    case (Inl e)
    with Pair show ?thesis by (simp add: plan_routes_try_def)
  next
    case (Inr dist_matrix)
    have solved: "\<And>s r' s' w2. solve rt s w1 = (r', s', w2) \<Longrightarrow> api_calls w2 = api_calls w1"
      using api_calls_solve by (metis snd_conv)
    from Pair Inr show ?thesis
      by (auto simp: plan_routes_try_def Let_def split: sum.splits prod.splits dest: solved)
  qed
qed

text \<open>
  Past the two checks, with a client constructed: what \<^verbatim>\<open>plan_routes\<close> does is what
  its \<^verbatim>\<open>try\<close> block does, a failure turned into one printed line.
\<close>

lemma plan_routes_try_except:
  assumes "destinations self \<noteq> []" and "drivers self \<noteq> []"
    and "Client gm (api_key self) = None"
  shows "plan_routes gm rt self w
           = (case plan_routes_try gm rt self (planner_request self) w of
                (Inl e, w') \<Rightarrow> (Inr (), print (''An error occurred: '' @ str_of_error e) w')
              | (Inr u, w') \<Rightarrow> (Inr (), w'))"
proof -
  have init: "GoogleDistanceMatrixClient_init gm (api_key self)
                = Inr \<lparr>origins = [], destination = []\<rparr>"
    using assms(3) by (simp add: GoogleDistanceMatrixClient_init_def)
  have client: "foldl set_destination (foldl add_origin \<lparr>origins = [], destination = []\<rparr>
                   (map address (drivers self))) (destinations self) = planner_request self"
    using planner_client [OF init] by (simp add: planner_request_def)
  show ?thesis
    using assms(1,2) by (simp add: plan_routes_def init client)
qed

lemma plan_routes_try_fetch_failed:
  "fetch_distance_matrix gm c w = (Inl e, w1) \<Longrightarrow> plan_routes_try gm rt self c w = (Inl e, w1)"
  by (simp add: plan_routes_try_def)

lemma plan_routes_returns:
  assumes "destinations self \<noteq> []" and "drivers self \<noteq> []"
    and "Client gm (api_key self) = None"
  shows "fst (plan_routes gm rt self w) = Inr ()"
    and "api_calls (snd (plan_routes gm rt self w))
           = api_calls w @ [(map address (drivers self), destinations self)]"
proof -
  obtain r w' where try_block: "plan_routes_try gm rt self (planner_request self) w = (r, w')"
    by (cases "plan_routes_try gm rt self (planner_request self) w")
  have "api_calls w' = api_calls (snd (fetch_distance_matrix gm (planner_request self) w))"
    using api_calls_try [of gm rt self "planner_request self" w] try_block by simp
  also have "\<dots> = api_calls w @ [(map address (drivers self), destinations self)]"
    using assms(1,2) by (simp add: fetch_world planner_request_def)
  finally have sent: "api_calls w' = api_calls w @ [(map address (drivers self), destinations self)]" .
  have eq: "plan_routes gm rt self w
           = (case r of
                Inl e \<Rightarrow> (Inr (), print (''An error occurred: '' @ str_of_error e) w')
              | Inr u \<Rightarrow> (Inr (), w'))"
    using plan_routes_try_except [OF assms, of rt w] try_block by simp
  show "fst (plan_routes gm rt self w) = Inr ()"
    using eq by (cases r) simp_all
  show "api_calls (snd (plan_routes gm rt self w))
           = api_calls w @ [(map address (drivers self), destinations self)]"
    using eq sent by (cases r) (simp_all add: api_calls_print)
qed

text \<open>
  C3, as amended. A failing construction of the Google client (line 55, before the
  \<^verbatim>\<open>try\<close>) is raised to the caller of \<^verbatim>\<open>plan_routes\<close>. Once the client exists,
  any exception that the \<^verbatim>\<open>try\<close> block raises (the one of a failing distance fetch
  among them) is caught: the line \<^verbatim>\<open>An error occurred:\<close> followed by the text of that
  very exception is printed after whatever the block had done, and the method returns
  \<^verbatim>\<open>None\<close>. The endpoint turns a failure of the fetch into the body
  \<^verbatim>\<open>{"error": str(e)}\<close> of an ordinary answer, with the text of that exception.
\<close>

theorem failures_caught_not_raised:
  "(destinations self \<noteq> [] \<and> drivers self \<noteq> [] \<and> Client gm (api_key self) = Some m
      \<longrightarrow> plan_routes gm rt self w = (Inl (LibraryError m), w))
   \<and> (destinations self \<noteq> [] \<and> drivers self \<noteq> [] \<and> Client gm (api_key self) = None
       \<and> plan_routes_try gm rt self (planner_request self) w = (Inl e, w1)
      \<longrightarrow> plan_routes gm rt self w
            = (Inr (), print (''An error occurred: '' @ str_of_error e) w1))
   \<and> (destinations self \<noteq> [] \<and> drivers self \<noteq> [] \<and> Client gm (api_key self) = None
       \<and> fetch_distance_matrix gm (planner_request self) w = (Inl e, w1)
      \<longrightarrow> plan_routes gm rt self w
            = (Inr (), print (''An error occurred: '' @ str_of_error e) w1))
   \<and> (fetch_distance_matrix gm (set_destination (foldl add_origin c origs) dest) w' = (Inl e', w1')
      \<longrightarrow> api_distance gm origs dest c w'
            = (ErrorBody (str_of_error e'), set_destination (foldl add_origin c origs) dest, w1'))"
proof (intro conjI impI)
  assume "destinations self \<noteq> [] \<and> drivers self \<noteq> [] \<and> Client gm (api_key self) = Some m"
  then show "plan_routes gm rt self w = (Inl (LibraryError m), w)"
    by (simp add: plan_routes_def GoogleDistanceMatrixClient_init_def)
next
  assume "destinations self \<noteq> [] \<and> drivers self \<noteq> [] \<and> Client gm (api_key self) = None
          \<and> plan_routes_try gm rt self (planner_request self) w = (Inl e, w1)"
  then show "plan_routes gm rt self w
            = (Inr (), print (''An error occurred: '' @ str_of_error e) w1)"
    using plan_routes_try_except [of self gm rt w] by simp
next
  assume a: "destinations self \<noteq> [] \<and> drivers self \<noteq> [] \<and> Client gm (api_key self) = None
          \<and> fetch_distance_matrix gm (planner_request self) w = (Inl e, w1)"
  then have "plan_routes_try gm rt self (planner_request self) w = (Inl e, w1)"
    by (simp add: plan_routes_try_fetch_failed)
  with a show "plan_routes gm rt self w
            = (Inr (), print (''An error occurred: '' @ str_of_error e) w1)"
    using plan_routes_try_except [of self gm rt w] by simp
next
  assume "fetch_distance_matrix gm (set_destination (foldl add_origin c origs) dest) w' = (Inl e', w1')"
  then show "api_distance gm origs dest c w'
            = (ErrorBody (str_of_error e'), set_destination (foldl add_origin c origs) dest, w1')"
    by (simp add: api_distance_def)
qed

text \<open>
  C3, an instance of each part: a driver, a passenger and a destination; a key that the
  client refuses; a key that it accepts with a distance service whose requests time
  out, for the method and for the endpoint.
\<close>

theorem failures_caught_not_raised_witness:
  "destinations (RoutePlanner_init [dan, pat, hall] (Some ''key'')) \<noteq> []
   \<and> drivers (RoutePlanner_init [dan, pat, hall] (Some ''key'')) \<noteq> []
   \<and> Client failing_service (api_key (RoutePlanner_init [dan, pat, hall] (Some ''key'')))
        = Some ''Invalid API key provided.''
   \<and> plan_routes failing_service solving_ortools
        (RoutePlanner_init [dan, pat, hall] (Some ''key'')) empty_world
        = (Inl (LibraryError ''Invalid API key provided.''), empty_world)
   \<and> destinations (RoutePlanner_init [dan, pat, hall] (Some ''AIzaKey'')) \<noteq> []
   \<and> drivers (RoutePlanner_init [dan, pat, hall] (Some ''AIzaKey'')) \<noteq> []
   \<and> Client failing_service (api_key (RoutePlanner_init [dan, pat, hall] (Some ''AIzaKey''))) = None
   \<and> fetch_distance_matrix failing_service
        (planner_request (RoutePlanner_init [dan, pat, hall] (Some ''AIzaKey''))) empty_world
        = (Inl (LibraryError ''timed out''), \<lparr>stdout = [], api_calls = [([''A''], [''D''])]\<rparr>)
   \<and> plan_routes_try failing_service solving_ortools
        (RoutePlanner_init [dan, pat, hall] (Some ''AIzaKey''))
        (planner_request (RoutePlanner_init [dan, pat, hall] (Some ''AIzaKey''))) empty_world
        = (Inl (LibraryError ''timed out''), \<lparr>stdout = [], api_calls = [([''A''], [''D''])]\<rparr>)
   \<and> plan_routes failing_service solving_ortools
        (RoutePlanner_init [dan, pat, hall] (Some ''AIzaKey'')) empty_world
        = (Inr (), \<lparr>stdout = [''An error occurred: timed out''],
                    api_calls = [([''A''], [''D''])]\<rparr>)
   \<and> fetch_distance_matrix failing_service
        (set_destination (foldl add_origin fresh_client [''A'']) ''D'') empty_world
        = (Inl (LibraryError ''timed out''), \<lparr>stdout = [], api_calls = [([''A''], [''D''])]\<rparr>)
   \<and> api_distance failing_service [''A''] ''D'' fresh_client empty_world
        = (ErrorBody ''timed out'', \<lparr>origins = [''A''], destination = [''D'']\<rparr>,
           \<lparr>stdout = [], api_calls = [([''A''], [''D''])]\<rparr>)"
proof -
  let ?Q = "RoutePlanner_init [dan, pat, hall] (Some ''key'')"
  let ?P = "RoutePlanner_init [dan, pat, hall] (Some ''AIzaKey'')"
  let ?w1 = "\<lparr>stdout = [], api_calls = [([''A''], [''D''])]\<rparr>"
  have q1: "destinations ?Q \<noteq> []" and q2: "drivers ?Q \<noteq> []"
    by (simp_all add: RoutePlanner_init_def dan_def pat_def hall_def)
  have q3: "Client failing_service (api_key ?Q) = Some ''Invalid API key provided.''"
    by (simp add: failing_service_def RoutePlanner_init_def key_check_def)
  have p1: "destinations ?P \<noteq> []" and p2: "drivers ?P \<noteq> []"
    by (simp_all add: RoutePlanner_init_def dan_def pat_def hall_def)
  have p3: "Client failing_service (api_key ?P) = None"
    by (simp add: failing_service_def RoutePlanner_init_def key_check_def)
  have p4: "fetch_distance_matrix failing_service (planner_request ?P) empty_world
              = (Inl (LibraryError ''timed out''), ?w1)"
    by (simp add: fetch_distance_matrix_def planner_request_def RoutePlanner_init_def
        failing_service_def empty_world_def dan_def pat_def hall_def)
  have p5: "plan_routes_try failing_service solving_ortools ?P (planner_request ?P) empty_world
              = (Inl (LibraryError ''timed out''), ?w1)"
    using p4 by (simp add: plan_routes_try_def)
  have e1: "fetch_distance_matrix failing_service
              (set_destination (foldl add_origin fresh_client [''A'']) ''D'') empty_world
              = (Inl (LibraryError ''timed out''), ?w1)"
    by (simp add: fetch_distance_matrix_def set_destination_def add_origin_def fresh_client_def
        failing_service_def empty_world_def)
  have c1: "plan_routes failing_service solving_ortools ?Q empty_world
              = (Inl (LibraryError ''Invalid API key provided.''), empty_world)"
    using failures_caught_not_raised
            [of ?Q failing_service "''Invalid API key provided.''" solving_ortools empty_world]
          q1 q2 q3
    by blast
  have c2: "plan_routes failing_service solving_ortools ?P empty_world
              = (Inr (), print (''An error occurred: '' @ str_of_error (LibraryError ''timed out''))
                           ?w1)"
    using failures_caught_not_raised
            [of ?P failing_service _ solving_ortools empty_world "LibraryError ''timed out''" ?w1]
          p1 p2 p3 p5
    by blast
  have c3: "api_distance failing_service [''A''] ''D'' fresh_client empty_world
              = (ErrorBody (str_of_error (LibraryError ''timed out'')),
                 set_destination (foldl add_origin fresh_client [''A'']) ''D'', ?w1)"
    using failures_caught_not_raised
            [of _ failing_service _ _ _ _ _ fresh_client "[''A'']" "''D''" empty_world
                "LibraryError ''timed out''" ?w1]
          e1
    by blast
  have c2': "plan_routes failing_service solving_ortools ?P empty_world
              = (Inr (), \<lparr>stdout = [''An error occurred: timed out''],
                          api_calls = [([''A''], [''D''])]\<rparr>)"
    using c2 by (simp add: print_def)
  have c3': "api_distance failing_service [''A''] ''D'' fresh_client empty_world
        = (ErrorBody ''timed out'', \<lparr>origins = [''A''], destination = [''D'']\<rparr>, ?w1)"
    using c3 by (simp add: set_destination_def add_origin_def fresh_client_def)
  from q1 q2 q3 c1 p1 p2 p3 p4 p5 c2' e1 c3' show ?thesis
    by (intro conjI)
qed

text \<open>
  C3 as stated fails: with an accepted key and a distance service whose requests time
  out, \<^verbatim>\<open>plan_routes\<close> catches the failure, prints it and returns normally.
\<close>

theorem plan_routes_prints_and_returns:
  "plan_routes failing_service solving_ortools
     (RoutePlanner_init [dan, pat, hall] (Some ''AIzaKey'')) empty_world
     = (Inr (), \<lparr>stdout = [''An error occurred: timed out''],
                 api_calls = [([''A''], [''D''])]\<rparr>)"
  by code_simp

text \<open>\<^verbatim>\<open>plan_routes\<close> reads the destinations, the drivers and the key, nothing else.\<close>

lemma plan_routes_reads:
  assumes "destinations a = destinations b" and "drivers a = drivers b"
    and "api_key a = api_key b"
  shows "plan_routes gm rt a w = plan_routes gm rt b w"
proof -
  have try_block: "plan_routes_try gm rt a = plan_routes_try gm rt b"
    unfolding plan_routes_try_def assms(2) by (rule refl)
  show ?thesis
    unfolding plan_routes_def assms try_block by (rule refl)
qed

text \<open>
  C4, as amended. \<^verbatim>\<open>plan_routes\<close> has no check of capacity: it never reads the
  passengers, and when the seats of the drivers add up to less than the number of
  passengers, and there are a destination, a driver and a client, it raises nothing to
  its caller; validation passes and the request for the distances is sent.
\<close>

theorem no_capacity_check:
  assumes "sum_list (map capacity (drivers self)) < int (length (passengers self))"
    and "destinations self \<noteq> []" and "drivers self \<noteq> []"
    and "Client gm (api_key self) = None"
  shows "fst (plan_routes gm rt self w) = Inr ()
         \<and> api_calls (snd (plan_routes gm rt self w))
             = api_calls w @ [(map address (drivers self), destinations self)]
         \<and> plan_routes gm rt (self\<lparr>passengers := ps\<rparr>) w = plan_routes gm rt self w"
proof (intro conjI)
  show "fst (plan_routes gm rt self w) = Inr ()"
    using assms(2-4) by (rule plan_routes_returns(1))
  show "api_calls (snd (plan_routes gm rt self w))
          = api_calls w @ [(map address (drivers self), destinations self)]"
    using assms(2-4) by (rule plan_routes_returns(2))
  show "plan_routes gm rt (self\<lparr>passengers := ps\<rparr>) w = plan_routes gm rt self w"
    by (rule plan_routes_reads) simp_all
qed

text \<open>
  C4, an instance: one driver with one seat, two passengers, one destination, an
  accepted key.
\<close>

theorem no_capacity_check_witness:
  "sum_list (map capacity (drivers (RoutePlanner_init [dan, pat, quinn, hall] (Some ''AIzaKey''))))
     < int (length (passengers (RoutePlanner_init [dan, pat, quinn, hall] (Some ''AIzaKey''))))
   \<and> destinations (RoutePlanner_init [dan, pat, quinn, hall] (Some ''AIzaKey'')) \<noteq> []
   \<and> drivers (RoutePlanner_init [dan, pat, quinn, hall] (Some ''AIzaKey'')) \<noteq> []
   \<and> Client answering_service
        (api_key (RoutePlanner_init [dan, pat, quinn, hall] (Some ''AIzaKey''))) = None
   \<and> fst (plan_routes answering_service solving_ortools
             (RoutePlanner_init [dan, pat, quinn, hall] (Some ''AIzaKey'')) empty_world) = Inr ()
   \<and> api_calls (snd (plan_routes answering_service solving_ortools
             (RoutePlanner_init [dan, pat, quinn, hall] (Some ''AIzaKey'')) empty_world))
        = [([''A''], [''D''])]
   \<and> plan_routes answering_service solving_ortools
        ((RoutePlanner_init [dan, pat, quinn, hall] (Some ''AIzaKey''))\<lparr>passengers := []\<rparr>)
        empty_world
      = plan_routes answering_service solving_ortools
          (RoutePlanner_init [dan, pat, quinn, hall] (Some ''AIzaKey'')) empty_world"
proof -
  let ?P = "RoutePlanner_init [dan, pat, quinn, hall] (Some ''AIzaKey'')"
  have h1: "sum_list (map capacity (drivers ?P)) < int (length (passengers ?P))"
    by (simp add: RoutePlanner_init_def dan_def pat_def quinn_def hall_def)
  have h2: "destinations ?P \<noteq> []" and h3: "drivers ?P \<noteq> []"
    by (simp_all add: RoutePlanner_init_def dan_def pat_def quinn_def hall_def)
  have h4: "Client answering_service (api_key ?P) = None"
    by (simp add: answering_service_def RoutePlanner_init_def key_check_def)
  have drv: "map address (drivers ?P) = [''A'']" and dst: "destinations ?P = [''D'']"
    by (simp_all add: RoutePlanner_init_def dan_def pat_def quinn_def hall_def)
  from no_capacity_check [OF h1 h2 h3 h4, of solving_ortools empty_world "[]"]
  have "fst (plan_routes answering_service solving_ortools ?P empty_world) = Inr ()"
    and "api_calls (snd (plan_routes answering_service solving_ortools ?P empty_world))
           = [([''A''], [''D''])]"
    and "plan_routes answering_service solving_ortools (?P\<lparr>passengers := []\<rparr>) empty_world
           = plan_routes answering_service solving_ortools ?P empty_world"
    by (simp_all add: drv dst empty_world_def)
  with h1 h2 h3 h4 show ?thesis by simp
qed

text \<open>
  C4 as stated fails: one seat for two passengers, and \<^verbatim>\<open>plan_routes\<close> raises
  nothing to its caller; the request for the distances has been sent.
\<close>

theorem short_capacity_not_rejected:
  "sum_list (map capacity (drivers (RoutePlanner_init [dan, pat, quinn, hall] (Some ''AIzaKey''))))
     < int (length (passengers (RoutePlanner_init [dan, pat, quinn, hall] (Some ''AIzaKey''))))
   \<and> fst (plan_routes answering_service solving_ortools
        (RoutePlanner_init [dan, pat, quinn, hall] (Some ''AIzaKey'')) empty_world) = Inr ()
   \<and> api_calls (snd (plan_routes answering_service solving_ortools
        (RoutePlanner_init [dan, pat, quinn, hall] (Some ''AIzaKey'')) empty_world))
      = [([''A''], [''D''])]"
  by code_simp

section \<open>Properties of the endpoint\<close>

lemma api_distance_client:
  "fst (snd (api_distance gm origs dest c w))
     = \<lparr>origins = origins c @ origs, destination = destination c @ [dest]\<rparr>"
  by (simp add: api_distance_def Let_def set_destination_def origins_foldl_add_origin
      destination_foldl_add_origin split: prod.splits sum.splits)

lemma two_requests:
  "(case api_distance answering_service [''A''] ''D'' fresh_client empty_world of
      (r1, c1, w1) \<Rightarrow>
        (case api_distance answering_service [''A''] ''D'' c1 w1 of
           (r2, c2, w2) \<Rightarrow>
             r1 = Results [result_line ''A'' [''D''] ''1 km'' ''2 mins'']
             \<and> r2 = Results [result_line ''A'' [''D'', ''D''] ''1 km'' ''2 mins'',
                             result_line ''A'' [''D'', ''D''] ''1 km'' ''2 mins'']
             \<and> r1 \<noteq> r2))"
  by code_simp

text \<open>
  C10. A request leaves the module's client with the request's origins appended to the
  origins it found and the request's destination appended to the destinations it found;
  nothing is ever removed. So the answer depends on the requests made before: against
  one and the same answering service, the request (origins A, destination D) is answered
  with one line the first time and with two lines, each naming the destination twice,
  the second time.
\<close>

theorem api_distance_accumulates:
  "fst (snd (api_distance gm origs dest google_client w))
     = \<lparr>origins = origins google_client @ origs,
        destination = destination google_client @ [dest]\<rparr>
   \<and> (case api_distance answering_service [''A''] ''D'' fresh_client empty_world of
      (r1, c1, w1) \<Rightarrow>
        (case api_distance answering_service [''A''] ''D'' c1 w1 of
           (r2, c2, w2) \<Rightarrow>
             r1 = Results [result_line ''A'' [''D''] ''1 km'' ''2 mins'']
             \<and> r2 = Results [result_line ''A'' [''D'', ''D''] ''1 km'' ''2 mins'',
                             result_line ''A'' [''D'', ''D''] ''1 km'' ''2 mins'']
             \<and> r1 \<noteq> r2))"
  using api_distance_client two_requests by (rule conjI)

end
